theory Spec2Isabelle
  imports Complex_Main "HOL-Library.Sublist" "HOL-Library.Log_Nat" "HOL-Library.Multiset"
begin

section \<open>Strings\<close>

text \<open>
  A JavaScript string is modelled as a \<^typ>\<open>string\<close>, one \<^typ>\<open>char\<close> per code unit, the
  code units being those of Latin-1 (0 to 255).  \<open>length\<close> is then the \<open>.length\<close> of the
  source.  The two Latin-1 letters whose upper-case form lies outside Latin-1 (code units
  181 and 255) are left unchanged by \<open>toUpperCase\<close> below; neither form is an ASCII letter,
  so no test against an ASCII keyword is affected.
\<close>

definition nl :: string where
  "nl = [char_of (10 :: nat)]"

definition dquote :: string where
  "dquote = [char_of (34 :: nat)]"

definition is_space :: "char \<Rightarrow> bool" where
  \<comment> \<open>white space and line terminators, as removed by \<open>trim\<close> and matched by \<open>\s\<close>\<close>
  "is_space c = (of_char c \<in> {9, 10, 11, 12, 13, 32, 160 :: nat})"

definition is_line_terminator :: "char \<Rightarrow> bool" where
  \<comment> \<open>the characters that \<open>.\<close> does not match\<close>
  "is_line_terminator c = (of_char c \<in> {10, 13 :: nat})"

definition is_digit :: "char \<Rightarrow> bool" where
  "is_digit c = (48 \<le> (of_char c :: nat) \<and> (of_char c :: nat) \<le> 57)"

definition trim :: "string \<Rightarrow> string" where
  "trim s = rev (dropWhile is_space (rev (dropWhile is_space s)))"

definition upper_char :: "char \<Rightarrow> string" where
  "upper_char c =
     (if 97 \<le> (of_char c :: nat) \<and> (of_char c :: nat) \<le> 122 then [char_of (of_char c - 32 :: nat)]
      else if (of_char c :: nat) = 223 then ''SS''
      else if 224 \<le> (of_char c :: nat) \<and> (of_char c :: nat) \<le> 254 \<and> (of_char c :: nat) \<noteq> 247
        then [char_of (of_char c - 32 :: nat)]
      else [c])"

definition toUpperCase :: "string \<Rightarrow> string" where
  "toUpperCase s = concat (map upper_char s)"

fun includes_str :: "string \<Rightarrow> string \<Rightarrow> bool" where
  "includes_str [] pat = (pat = [])"
| "includes_str (c # cs) pat = (prefix pat (c # cs) \<or> includes_str cs pat)"

text \<open>\<open>s.split(sep)\<close> for a non-empty separator: the pieces between the occurrences of
  \<open>sep\<close>, found from left to right without overlap; never the empty list.\<close>

fun split :: "string \<Rightarrow> string \<Rightarrow> string list" where
  "split [] sep = [[]]"
| "split (c # cs) sep =
     (if prefix sep (c # cs) then [] # split (drop (length sep - 1) cs) sep
      else (case split cs sep of [] \<Rightarrow> [[c]] | p # ps \<Rightarrow> (c # p) # ps))"

fun join :: "string \<Rightarrow> string list \<Rightarrow> string" where
  "join sep [] = []"
| "join sep [x] = x"
| "join sep (x # y # ys) = x @ sep @ join sep (y # ys)"

fun string_of_nat :: "nat \<Rightarrow> string" where
  "string_of_nat n =
     (if n < 10 then [char_of (48 + n)]
      else string_of_nat (n div 10) @ [char_of (48 + n mod 10)])"

text \<open>\<open>x || d\<close> on a possibly missing string: \<open>null\<close>, \<open>undefined\<close> and the empty
  string are falsy.\<close>

fun or_else :: "string option \<Rightarrow> string \<Rightarrow> string" where
  "or_else None d = d"
| "or_else (Some s) d = (if s = [] then d else s)"

fun or_zero :: "nat option \<Rightarrow> nat" where
  "or_zero None = 0"
| "or_zero (Some n) = n"

text \<open>Case-insensitive matching of a regular expression with the \<open>i\<close> flag and without
  the \<open>u\<close> flag compares canonical forms: the upper-case form when it is a single code
  unit, except that a non-ASCII character is never identified with an ASCII one.\<close>

definition canonicalize :: "char \<Rightarrow> char" where
  "canonicalize c =
     (case upper_char c of
        [u] \<Rightarrow> if 128 \<le> (of_char c :: nat) \<and> (of_char u :: nat) < 128 then c else u
      | _ \<Rightarrow> c)"

fun ci_prefix :: "string \<Rightarrow> string \<Rightarrow> bool" where
  "ci_prefix [] s = True"
| "ci_prefix (p # ps) [] = False"
| "ci_prefix (p # ps) (c # cs) = (canonicalize p = canonicalize c \<and> ci_prefix ps cs)"

section \<open>Numbers\<close>

text \<open>
  A JavaScript \<open>number\<close> is an IEEE 754 binary64 value.  The finite ones are rationals, and
  every arithmetic operation returns the exact result rounded to the nearest binary64
  value, ties to even.  The functions below take the rounding \<open>rnd\<close> as a parameter:
  \<open>binary64\<close> gives the arithmetic of the program, the identity gives exact arithmetic.
  \<open>binary64\<close> has 53 significant bits, exponents from \<open>-1074\<close> (subnormal numbers
  included); overflow to infinity is outside the model, no value here comes near
  \<open>2 ^ 1024\<close>.
\<close>

type_synonym rounding = "rat \<Rightarrow> rat"

definition pow2 :: "int \<Rightarrow> rat" where
  "pow2 k = (if 0 \<le> k then 2 ^ nat k else 1 / 2 ^ nat (- k))"

definition ilog2 :: "rat \<Rightarrow> int" where
  \<comment> \<open>for \<open>0 < a\<close>, the exponent \<open>e\<close> with \<open>2 ^ e \<le> a < 2 ^ (e + 1)\<close>\<close>
  "ilog2 a =
     (if 1 \<le> a then bitlen \<lfloor>a\<rfloor> - 1
      else (let j = bitlen \<lfloor>1 / a\<rfloor> in if pow2 (1 - j) \<le> a then 1 - j else - j))"

definition round_half_even :: "rat \<Rightarrow> int" where
  "round_half_even x =
     (let f = \<lfloor>x\<rfloor>; d = x - of_int f
      in if d < 1 / 2 then f else if 1 / 2 < d then f + 1 else if even f then f else f + 1)"

definition binary64 :: rounding where
  "binary64 x =
     (if x = 0 then 0
      else (let a = \<bar>x\<bar>; q = max (ilog2 a - 52) (- 1074)
            in sgn x * of_int (round_half_even (a / pow2 q)) * pow2 q))"

definition exact :: rounding where
  "exact x = x"

definition js_add :: "rounding \<Rightarrow> rat \<Rightarrow> rat \<Rightarrow> rat" where
  "js_add rnd a b = rnd (a + b)"

definition js_sub :: "rounding \<Rightarrow> rat \<Rightarrow> rat \<Rightarrow> rat" where
  "js_sub rnd a b = rnd (a - b)"

definition js_mul :: "rounding \<Rightarrow> rat \<Rightarrow> rat \<Rightarrow> rat" where
  "js_mul rnd a b = rnd (a * b)"

definition js_div :: "rounding \<Rightarrow> rat \<Rightarrow> rat \<Rightarrow> rat" where
  \<comment> \<open>used with a non-zero divisor only\<close>
  "js_div rnd a b = rnd (a / b)"

section \<open>The generator\<close>

text \<open>
  Every call of \<open>openai.chat.completions.create\<close> is a request to an external service.
  Its outcome is either a thrown value or a completion, of which the program reads
  \<open>choices[0].message.content\<close> and \<open>usage?.total_tokens\<close>.  The generator is a
  parameter: any function from the requests dispatched so far and the present request to
  an outcome.  The list of dispatched requests is threaded through every function that
  calls the generator, so that the calls a function issues can be counted and inspected.
\<close>

record chat_request =
  req_model :: string
  req_system :: string
  req_user :: string
  req_max_tokens :: nat
  req_temperature :: rat

datatype thrown = Error string | Not_an_Error

record completion =
  content :: "string option"
  total_tokens :: "nat option"

type_synonym generator = "chat_request list \<Rightarrow> chat_request \<Rightarrow> thrown + completion"

definition create :: "generator \<Rightarrow> chat_request list \<Rightarrow> chat_request \<Rightarrow> (thrown + completion) \<times> chat_request list" where
  "create gen sent req = (gen sent req, sent @ [req])"

fun error_message :: "thrown \<Rightarrow> string" where
  \<comment> \<open>\<open>error instanceof Error ? error.message : 'Unknown error'\<close>\<close>
  "error_message (Error m) = m"
| "error_message Not_an_Error = ''Unknown error''"

section \<open>MultiAgentOrchestrator\<close>

text \<open>The wall-clock fields of a step (\<open>timestamp\<close>, \<open>execution_time\<close>) and the optional
  request fields that \<open>collaborate\<close> never reads are left out.\<close>

record agent =
  agent_id :: string
  agent_name :: string
  role :: string
  capabilities :: "string list"
  agent_model :: string
  temperature :: rat
  max_tokens :: nat
  system_prompt :: string
  tools :: "string list option"

datatype collaboration_type = Sequential | Parallel | Hierarchical | Other_type string

record collaboration_request =
  task :: string
  agents :: "string list"
  ctype :: collaboration_type

record collaboration_step =
  step_number :: nat
  step_agent :: agent
  step_input :: string
  step_output :: string
  step_success :: bool

record collaboration_result =
  result_task :: string
  result_type :: string
  agents_used :: "agent list"
  steps :: "collaboration_step list"
  final_result :: string
  execution_time :: rat
  success :: bool

record orchestrator_stats =
  total_collaborations :: nat
  avg_agents_per_task :: rat
  success_rate :: rat
  avg_execution_time :: rat

record orchestrator =
  registered_agents :: "string \<rightharpoonup> agent"
  stats :: orchestrator_stats

definition initial_stats :: "rounding \<Rightarrow> orchestrator_stats" where
  \<comment> \<open>the constructor's values\<close>
  "initial_stats rnd =
     \<lparr>total_collaborations = 0, avg_agents_per_task = rnd (25 / 10),
      success_rate = rnd (95 / 100), avg_execution_time = rnd 5000\<rparr>"

definition agent_request :: "agent \<Rightarrow> string \<Rightarrow> chat_request" where
  \<comment> \<open>the request built by \<open>executeAgentTask\<close>\<close>
  "agent_request agent prompt =
     \<lparr>req_model = agent_model agent, req_system = system_prompt agent, req_user = prompt,
      req_max_tokens = max_tokens agent, req_temperature = temperature agent\<rparr>"

definition executeAgentTask :: "generator \<Rightarrow> chat_request list \<Rightarrow> agent \<Rightarrow> string \<Rightarrow> (thrown + string) \<times> chat_request list" where
  "executeAgentTask gen sent agent prompt =
     (case create gen sent (agent_request agent prompt) of
        (Inl error, sent') \<Rightarrow> (Inl error, sent')
      | (Inr completion, sent') \<Rightarrow> (Inr (or_else (content completion) []), sent'))"

definition string_of_int :: "int \<Rightarrow> string" where
  "string_of_int i = (if i < 0 then ''-'' @ string_of_nat (nat (- i)) else string_of_nat (nat i))"

definition buildAgentPrompt :: "agent \<Rightarrow> string \<Rightarrow> nat \<Rightarrow> nat \<Rightarrow> string \<Rightarrow> string" where
  "buildAgentPrompt agent inp stepIndex totalSteps type =
     (if type = ''sequential'' then
        ''Task: '' @ inp @ nl @ nl
        @ ''You are agent '' @ string_of_nat (stepIndex + 1) @ '' of '' @ string_of_nat totalSteps
        @ '' in a sequential workflow.'' @ nl
        @ ''Your role: '' @ role agent @ nl
        @ ''Your capabilities: '' @ join '', '' (capabilities agent) @ nl @ nl
        @ (if stepIndex > 0
           then ''This input is the output from the previous agent. Build upon their work.'' @ nl
           else [])
        @ (if int stepIndex < int totalSteps - 1
           then ''Your output will be passed to the next agent, so be clear and comprehensive.'' @ nl
           else ''You are the final agent. Provide a complete, polished result.'' @ nl)
      else if type = ''parallel'' then
        ''Task: '' @ inp @ nl @ nl
        @ ''You are working in parallel with '' @ string_of_int (int totalSteps - 1)
        @ '' other agents on this task.'' @ nl
        @ ''Focus on your expertise area: '' @ role agent @ nl
        @ ''Your unique capabilities: '' @ join '', '' (capabilities agent) @ nl
        @ ''Provide your perspective and recommendations based on your specialization.'' @ nl
      else ''Task: '' @ inp @ nl @ nl)"

definition buildLeaderPrompt :: "agent \<Rightarrow> string \<Rightarrow> agent list \<Rightarrow> string" where
  "buildLeaderPrompt leader mainTask workers =
     ''As the lead coordinator, break down this complex task into smaller, manageable subtasks.'' @ nl
     @ nl
     @ ''Main Task: '' @ mainTask @ nl
     @ nl
     @ ''Available team members and their capabilities:'' @ nl
     @ join nl (map (\<lambda>agent. ''- '' @ agent_name agent @ '' ('' @ role agent @ ''): ''
                        @ join '', '' (capabilities agent)) workers) @ nl
     @ nl
     @ ''Please:'' @ nl
     @ ''1. Analyze the main task'' @ nl
     @ ''2. Break it into 2-'' @ string_of_nat (length workers) @ '' specific subtasks'' @ nl
     @ ''3. Suggest which team member should handle each subtask'' @ nl
     @ ''4. Provide clear, actionable instructions for each subtask'' @ nl
     @ nl
     @ ''Format your response as:'' @ nl
     @ ''SUBTASK 1: [Description]'' @ nl
     @ ''ASSIGNED TO: [Agent name]'' @ nl
     @ ''INSTRUCTIONS: [Specific instructions]'' @ nl
     @ nl
     @ ''SUBTASK 2: [Description]'' @ nl
     @ ''...''"

definition buildWorkerPrompt :: "agent \<Rightarrow> string \<Rightarrow> string \<Rightarrow> string" where
  "buildWorkerPrompt worker subtask originalTask =
     ''You have been assigned a specific subtask as part of a larger project.'' @ nl
     @ nl
     @ ''Original Task: '' @ originalTask @ nl
     @ nl
     @ ''Your Subtask: '' @ subtask @ nl
     @ nl
     @ ''Your Role: '' @ role worker @ nl
     @ ''Your Capabilities: '' @ join '', '' (capabilities worker) @ nl
     @ nl
     @ ''Please complete this subtask thoroughly, keeping in mind how it contributes to the overall project goal. Provide detailed results that can be integrated with other team members'' @ [char_of (39 :: nat)] @ '' work.''"

subsection \<open>Sequential collaboration\<close>

text \<open>The \<open>for\<close> loop over the agents: \<open>i\<close> is the index, the list holds the agents from
  index \<open>i\<close> on, \<open>acc\<close> is the array \<open>steps\<close>, \<open>totalSteps\<close> is \<open>agents.length\<close>.  The result is the list of steps and
  the flag \<open>success\<close>.\<close>

fun sequential_loop :: "generator \<Rightarrow> nat \<Rightarrow> nat \<Rightarrow> agent list \<Rightarrow> string \<Rightarrow> collaboration_step list \<Rightarrow> chat_request list \<Rightarrow> (collaboration_step list \<times> bool) \<times> chat_request list" where
  "sequential_loop gen totalSteps i [] currentInput acc sent = ((acc, True), sent)"
| "sequential_loop gen totalSteps i (agent # rest) currentInput acc sent =
     (case executeAgentTask gen sent agent (buildAgentPrompt agent currentInput i totalSteps ''sequential'') of
        (Inr response, sent') \<Rightarrow>
          sequential_loop gen totalSteps (i + 1) rest response
            (acc @ [\<lparr>step_number = i + 1, step_agent = agent, step_input = currentInput,
                        step_output = response, step_success = True\<rparr>]) sent'
      | (Inl error, sent') \<Rightarrow>
          ((acc @ [\<lparr>step_number = i + 1, step_agent = agent, step_input = currentInput,
                       step_output = ''Error: '' @ error_message error, step_success = False\<rparr>], False), sent'))"

definition last_output :: "collaboration_step list \<Rightarrow> string option" where
  \<comment> \<open>\<open>steps[steps.length - 1]?.output\<close>\<close>
  "last_output acc = (if acc = [] then None else Some (step_output (last acc)))"

definition sequentialCollaboration :: "generator \<Rightarrow> chat_request list \<Rightarrow> collaboration_request \<Rightarrow> agent list \<Rightarrow> collaboration_result \<times> chat_request list" where
  "sequentialCollaboration gen sent request selected =
     (case sequential_loop gen (length selected) 0 selected (task request) [] sent of
        ((acc, ok), sent') \<Rightarrow>
          (\<lparr>result_task = task request, result_type = ''sequential'', agents_used = selected,
            steps = acc, final_result = or_else (last_output acc) ''No result'',
            execution_time = 0, success = ok\<rparr>, sent'))"

subsection \<open>Parallel collaboration\<close>

text \<open>\<open>agents.map(async (agent, index) => ...)\<close>: every callback runs up to its
  \<open>await\<close> when it is called, so the requests are dispatched in the order of the agents,
  and \<open>Promise.all\<close> returns the steps in that order whatever the order of completion.\<close>

fun parallel_branches :: "generator \<Rightarrow> string \<Rightarrow> nat \<Rightarrow> nat \<Rightarrow> agent list \<Rightarrow> chat_request list \<Rightarrow> collaboration_step list \<times> chat_request list" where
  "parallel_branches gen t totalSteps index [] sent = ([], sent)"
| "parallel_branches gen t totalSteps index (agent # rest) sent =
     (case executeAgentTask gen sent agent (buildAgentPrompt agent t index totalSteps ''parallel'') of
        (outcome, sent') \<Rightarrow>
          (case parallel_branches gen t totalSteps (index + 1) rest sent' of
             (results, sent'') \<Rightarrow>
               ((case outcome of
                   Inr response \<Rightarrow>
                     \<lparr>step_number = index + 1, step_agent = agent, step_input = t,
                      step_output = response, step_success = True\<rparr>
                 | Inl error \<Rightarrow>
                     \<lparr>step_number = index + 1, step_agent = agent, step_input = t,
                      step_output = ''Error: '' @ error_message error, step_success = False\<rparr>)
                # results, sent'')))"

definition parallel_synthesisPrompt :: "string \<Rightarrow> collaboration_step list \<Rightarrow> string" where
  "parallel_synthesisPrompt t successfulResults =
     ''Synthesize the following parallel agent results into a comprehensive response.'' @ nl
     @ nl
     @ ''Original Task: '' @ t @ nl
     @ nl
     @ ''Agent Results:'' @ nl
     @ join (nl @ nl @ ''---'' @ nl @ nl)
         (map (\<lambda>r. agent_name (step_agent r) @ '' ('' @ role (step_agent r) @ ''):'' @ nl @ step_output r)
            successfulResults) @ nl
     @ nl
     @ ''Please create a unified, coherent response that incorporates insights from all agents while avoiding redundancy.''"

definition parallel_synthesis_request :: "string \<Rightarrow> collaboration_step list \<Rightarrow> chat_request" where
  "parallel_synthesis_request t successfulResults =
     \<lparr>req_model = ''gpt-4'',
      req_system = ''You are an expert at synthesizing multiple perspectives into coherent, comprehensive responses.'',
      req_user = parallel_synthesisPrompt t successfulResults,
      req_max_tokens = 1500, req_temperature = 4 / 10\<rparr>"

definition synthesizeParallelResults :: "generator \<Rightarrow> chat_request list \<Rightarrow> string \<Rightarrow> collaboration_step list \<Rightarrow> (thrown + string) \<times> chat_request list" where
  "synthesizeParallelResults gen sent t results =
     (let successfulResults = filter step_success results
      in if length successfulResults = 0
         then (Inr ''All parallel tasks failed. Unable to synthesize results.'', sent)
         else (case create gen sent (parallel_synthesis_request t successfulResults) of
                 (Inl error, sent') \<Rightarrow> (Inl error, sent')
               | (Inr completion, sent') \<Rightarrow>
                   (Inr (or_else (content completion) ''Failed to synthesize results''), sent')))"

definition parallelCollaboration :: "generator \<Rightarrow> chat_request list \<Rightarrow> collaboration_request \<Rightarrow> agent list \<Rightarrow> (thrown + collaboration_result) \<times> chat_request list" where
  "parallelCollaboration gen sent request selected =
     (case parallel_branches gen (task request) (length selected) 0 selected sent of
        (results, sent') \<Rightarrow>
          (case synthesizeParallelResults gen sent' (task request) results of
             (Inl error, sent'') \<Rightarrow> (Inl error, sent'')
           | (Inr synthesizedResult, sent'') \<Rightarrow>
               (Inr \<lparr>result_task = task request, result_type = ''parallel'', agents_used = selected,
                     steps = results, final_result = synthesizedResult,
                     execution_time = 0, success = list_all step_success results\<rparr>, sent'')))"

subsection \<open>Hierarchical collaboration\<close>

fun subtask_lines :: "string list \<Rightarrow> string list" where
  \<comment> \<open>the loop of \<open>parseSubtasks\<close> over the lines\<close>
  "subtask_lines [] = []"
| "subtask_lines (line # lines) =
     (if includes_str (toUpperCase line) ''SUBTASK''
      then (case dropWhile (\<lambda>c. c \<noteq> CHR '':'') line of
              [] \<Rightarrow> subtask_lines lines
            | colon # rest \<Rightarrow> trim rest # subtask_lines lines)
      else subtask_lines lines)"

definition parseSubtasks :: "string \<Rightarrow> string list" where
  "parseSubtasks breakdown =
     (let subtasks = subtask_lines (split breakdown nl)
      in if length subtasks = 0
         then take 3 (filter (\<lambda>p. length (trim p) > 50) (split breakdown (nl @ nl)))
         else subtasks)"

text \<open>The callbacks over \<open>subtasks.slice(0, workers.length)\<close>: the subtask at \<open>index\<close>
  goes to \<open>workers[index]\<close>; the two lists are walked together.\<close>

fun worker_branches :: "generator \<Rightarrow> string \<Rightarrow> nat \<Rightarrow> string list \<Rightarrow> agent list \<Rightarrow> chat_request list \<Rightarrow> collaboration_step list \<times> chat_request list" where
  "worker_branches gen t index (subtask # subtasks) (worker # workers) sent =
     (case executeAgentTask gen sent worker (buildWorkerPrompt worker subtask t) of
        (outcome, sent') \<Rightarrow>
          (case worker_branches gen t (index + 1) subtasks workers sent' of
             (results, sent'') \<Rightarrow>
               ((case outcome of
                   Inr result \<Rightarrow>
                     \<lparr>step_number = index + 2, step_agent = worker, step_input = subtask,
                      step_output = result, step_success = True\<rparr>
                 | Inl error \<Rightarrow>
                     \<lparr>step_number = index + 2, step_agent = worker, step_input = subtask,
                      step_output = ''Error: '' @ error_message error, step_success = False\<rparr>)
                # results, sent'')))"
| "worker_branches gen t index subtasks workers sent = ([], sent)"

definition hierarchical_synthesisPrompt :: "string \<Rightarrow> string \<Rightarrow> collaboration_step list \<Rightarrow> string" where
  "hierarchical_synthesisPrompt originalTask breakdown workerResults =
     ''As the project leader, provide a final comprehensive result.'' @ nl
     @ nl
     @ ''Original Task: '' @ originalTask @ nl
     @ nl
     @ ''Task Breakdown: '' @ breakdown @ nl
     @ nl
     @ ''Team Results:'' @ nl
     @ join (nl @ nl) (map (\<lambda>r. agent_name (step_agent r) @ '': '' @ step_output r) workerResults) @ nl
     @ nl
     @ ''Please provide a final, integrated solution that addresses the original task completely.''"

definition hierarchical_synthesis_request :: "string \<Rightarrow> string \<Rightarrow> collaboration_step list \<Rightarrow> chat_request" where
  "hierarchical_synthesis_request originalTask breakdown workerResults =
     \<lparr>req_model = ''gpt-4'',
      req_system = ''You are a project leader synthesizing team results into a final deliverable.'',
      req_user = hierarchical_synthesisPrompt originalTask breakdown workerResults,
      req_max_tokens = 2000, req_temperature = 3 / 10\<rparr>"

definition synthesizeHierarchicalResults :: "generator \<Rightarrow> chat_request list \<Rightarrow> string \<Rightarrow> string \<Rightarrow> collaboration_step list \<Rightarrow> (thrown + string) \<times> chat_request list" where
  "synthesizeHierarchicalResults gen sent originalTask breakdown workerResults =
     (case create gen sent (hierarchical_synthesis_request originalTask breakdown workerResults) of
        (Inl error, sent') \<Rightarrow> (Inl error, sent')
      | (Inr completion, sent') \<Rightarrow>
          (Inr (or_else (content completion) ''Failed to synthesize final result''), sent'))"

text \<open>\<open>hierarchicalCollaboration\<close> is entered with a non-empty list of agents only
  (\<open>validateAndGetAgents\<close> throws otherwise); on the empty list \<open>agents[0]\<close> is
  \<open>undefined\<close> and \<open>executeAgentTask\<close> throws a \<open>TypeError\<close> at \<open>agent.model\<close>,
  before any request.\<close>

definition hierarchicalCollaboration :: "generator \<Rightarrow> chat_request list \<Rightarrow> collaboration_request \<Rightarrow> agent list \<Rightarrow> (thrown + collaboration_result) \<times> chat_request list" where
  "hierarchicalCollaboration gen sent request selected =
     (case selected of
        [] \<Rightarrow> (Inl (Error ''Cannot read properties of undefined (reading model)''), sent)
      | leader # workers \<Rightarrow>
          (case executeAgentTask gen sent leader (buildLeaderPrompt leader (task request) workers) of
             (Inl error, sent1) \<Rightarrow> (Inl error, sent1)
           | (Inr taskBreakdown, sent1) \<Rightarrow>
               (case worker_branches gen (task request) 0
                       (take (length workers) (parseSubtasks taskBreakdown)) workers sent1 of
                  (workerResults, sent2) \<Rightarrow>
                    (case synthesizeHierarchicalResults gen sent2 (task request) taskBreakdown workerResults of
                       (Inl error, sent3) \<Rightarrow> (Inl error, sent3)
                     | (Inr finalSynthesis, sent3) \<Rightarrow>
                         (Inr \<lparr>result_task = task request, result_type = ''hierarchical'',
                               agents_used = selected,
                               steps =
                                 \<lparr>step_number = 1, step_agent = leader, step_input = task request,
                                  step_output = taskBreakdown, step_success = True\<rparr>
                                 # workerResults
                                 @ [\<lparr>step_number = length workerResults + 2, step_agent = leader,
                                     step_input = ''Synthesis of worker results'',
                                     step_output = finalSynthesis, step_success = True\<rparr>],
                               final_result = finalSynthesis, execution_time = 0,
                               success = list_all step_success workerResults\<rparr>, sent3)))))"

subsection \<open>Validation, statistics and the entry point\<close>

fun lookup_agents :: "(string \<rightharpoonup> agent) \<Rightarrow> string list \<Rightarrow> agent list \<Rightarrow> thrown + agent list" where
  \<comment> \<open>the loop of \<open>validateAndGetAgents\<close>; the third argument is the array built so far\<close>
  "lookup_agents registry [] found = Inr found"
| "lookup_agents registry (i # ids) found =
     (case registry i of
        None \<Rightarrow> Inl (Error (''Agent not found: '' @ i))
      | Some agent \<Rightarrow> lookup_agents registry ids (found @ [agent]))"

definition validateAndGetAgents :: "(string \<rightharpoonup> agent) \<Rightarrow> string list \<Rightarrow> thrown + agent list" where
  "validateAndGetAgents registry agentIds =
     (case lookup_agents registry agentIds [] of
        Inl error \<Rightarrow> Inl error
      | Inr found \<Rightarrow>
          if length found = 0 then Inl (Error ''No valid agents provided'') else Inr found)"

text \<open>\<open>updateStats\<close> is private and reached from \<open>collaborate\<close> only, after the counter
  was incremented: \<open>total\<close> is at least 1 at every call, and the divisions are by a
  non-zero number.\<close>

definition updateStats :: "rounding \<Rightarrow> orchestrator_stats \<Rightarrow> rat \<Rightarrow> rat \<Rightarrow> bool \<Rightarrow> orchestrator_stats" where
  "updateStats rnd st executionTime agentCount ok =
     (let n = rat_of_nat (total_collaborations st)
      in st\<lparr>success_rate :=
               js_div rnd (js_add rnd (js_mul rnd (success_rate st) (js_sub rnd n 1)) (if ok then 1 else 0)) n,
             avg_execution_time :=
               js_div rnd (js_add rnd (js_mul rnd (avg_execution_time st) (js_sub rnd n 1)) executionTime) n,
             avg_agents_per_task :=
               js_div rnd (js_add rnd (js_mul rnd (avg_agents_per_task st) (js_sub rnd n 1)) agentCount) n\<rparr>)"

definition count_collaboration :: "orchestrator_stats \<Rightarrow> orchestrator_stats" where
  \<comment> \<open>\<open>this.stats.total_collaborations++\<close>\<close>
  "count_collaboration st = st\<lparr>total_collaborations := total_collaborations st + 1\<rparr>"

text \<open>\<open>collaborate\<close>: \<open>elapsed\<close> is the reading \<open>Date.now() - startTime\<close> taken when the
  request completes.  The result is the value returned or thrown, the orchestrator with
  its statistics updated, and the requests dispatched.\<close>

definition collaborate :: "rounding \<Rightarrow> generator \<Rightarrow> rat \<Rightarrow> orchestrator \<Rightarrow> chat_request list \<Rightarrow> collaboration_request \<Rightarrow> (thrown + collaboration_result) \<times> orchestrator \<times> chat_request list" where
  "collaborate rnd gen elapsed this sent request =
     (let counted = count_collaboration (stats this);
          failed = (\<lambda>error sent'.
            (Inl error,
             this\<lparr>stats := updateStats rnd counted elapsed (rat_of_nat (length (agents request))) False\<rparr>,
             sent'))
      in case validateAndGetAgents (registered_agents this) (agents request) of
           Inl error \<Rightarrow> failed error sent
         | Inr selectedAgents \<Rightarrow>
             (case (case ctype request of
                      Sequential \<Rightarrow>
                        (case sequentialCollaboration gen sent request selectedAgents of
                           (result, sent') \<Rightarrow> (Inr result, sent'))
                    | Parallel \<Rightarrow> parallelCollaboration gen sent request selectedAgents
                    | Hierarchical \<Rightarrow> hierarchicalCollaboration gen sent request selectedAgents
                    | Other_type name \<Rightarrow> (Inl (Error (''Unknown collaboration type: '' @ name)), sent)) of
                (Inl error, sent') \<Rightarrow> failed error sent'
              | (Inr result, sent') \<Rightarrow>
                  (Inr (result\<lparr>execution_time := elapsed\<rparr>),
                   this\<lparr>stats := updateStats rnd counted elapsed (rat_of_nat (length selectedAgents)) (success result)\<rparr>,
                   sent')))"

text \<open>The statistics after one call of \<open>collaborate\<close> that took \<open>executionTime\<close>, counted
  \<open>agentCount\<close> agents and ended with \<open>ok\<close>: the counter is incremented at entry and
  \<open>updateStats\<close> runs once at exit.\<close>

definition completed_collaboration :: "rounding \<Rightarrow> orchestrator_stats \<Rightarrow> rat \<times> rat \<times> bool \<Rightarrow> orchestrator_stats" where
  "completed_collaboration rnd st outcome =
     (case outcome of (executionTime, agentCount, ok) \<Rightarrow>
        updateStats rnd (count_collaboration st) executionTime agentCount ok)"

section \<open>ReasoningEngine\<close>

record reasoning_request =
  request_input :: string
  request_context :: "string option"  \<comment> \<open>\<open>JSON.stringify(context, null, 2)\<close> when \<open>context\<close> is truthy\<close>
  request_max_tokens :: "nat option"
  request_temperature :: "rat option"

record reasoning_step =
  rs_number :: nat
  rs_type :: string
  thought :: string
  action :: "string option"
  observation :: "string option"
  confidence :: rat

record reasoning_result =
  response :: string
  reasoning :: "reasoning_step list"
  result_confidence :: rat
  processing_time :: rat
  tokens_used :: nat

record reasoning_stats =
  total_processes :: nat
  r_success_rate :: rat
  avg_processing_time :: rat
  avg_tokens_used :: rat

subsection \<open>Chain of thought\<close>

definition numbered_line :: "string \<Rightarrow> bool" where
  \<comment> \<open>\<open>/^\d+\./\<close>\<close>
  "numbered_line line =
     (takeWhile is_digit line \<noteq> [] \<and>
      (case dropWhile is_digit line of [] \<Rightarrow> False | c # rest \<Rightarrow> c = CHR ''.''))"

fun step_marker :: "string \<Rightarrow> bool" where
  \<comment> \<open>\<open>/step \d+/i\<close>, at any position\<close>
  "step_marker [] = False"
| "step_marker (c # cs) =
     ((ci_prefix ''step '' (c # cs) \<and> (case drop 5 (c # cs) of [] \<Rightarrow> False | d # rest \<Rightarrow> is_digit d))
      \<or> step_marker cs)"

fun cot_steps :: "rounding \<Rightarrow> nat \<Rightarrow> string list \<Rightarrow> reasoning_step list" where
  \<comment> \<open>the loop of \<open>parseChainOfThoughtReasoning\<close>; the second argument is \<open>stepNumber\<close>\<close>
  "cot_steps rnd stepNumber [] = []"
| "cot_steps rnd stepNumber (line # lines) =
     (if numbered_line line \<or> step_marker line
      then \<lparr>rs_number = stepNumber, rs_type = ''chain-of-thought'', thought = line,
            action = None, observation = None, confidence = rnd (8 / 10)\<rparr>
           # cot_steps rnd (stepNumber + 1) lines
      else cot_steps rnd stepNumber lines)"

definition parseChainOfThoughtReasoning :: "rounding \<Rightarrow> string \<Rightarrow> reasoning_step list" where
  "parseChainOfThoughtReasoning rnd resp =
     (let parsed = cot_steps rnd 1 (split resp nl)
      in if length parsed > 0 then parsed
         else [\<lparr>rs_number = 1, rs_type = ''chain-of-thought'', thought = resp,
                action = None, observation = None, confidence = rnd (7 / 10)\<rparr>])"

text \<open>The two patterns of \<open>extractFinalAnswer\<close> have the shape
  \<open>(?:k1|k2|...)\s*(.+?)(?:\n|$)\<close> (in the first one every alternative ends with the
  colon).  \<open>capture_line\<close> is \<open>(.+?)(?:\n|$)\<close> at a position: the lazy group can only
  end where a line feed or the end of the text follows, and \<open>.\<close> does not cross a line
  terminator.  \<open>skip_space_capture\<close> puts the greedy \<open>\s*\<close> in front, giving back one
  character at a time.  \<open>regex_search\<close> returns group 1 of the leftmost match.\<close>

definition capture_line :: "string \<Rightarrow> string option" where
  "capture_line s =
     (if takeWhile (\<lambda>c. \<not> is_line_terminator c) s \<noteq> [] \<and>
         (case dropWhile (\<lambda>c. \<not> is_line_terminator c) s of [] \<Rightarrow> True | c # rest \<Rightarrow> c = char_of (10 :: nat))
      then Some (takeWhile (\<lambda>c. \<not> is_line_terminator c) s) else None)"

fun skip_space_capture :: "string \<Rightarrow> string option" where
  "skip_space_capture [] = capture_line []"
| "skip_space_capture (c # cs) =
     (if is_space c
      then (case skip_space_capture cs of Some g \<Rightarrow> Some g | None \<Rightarrow> capture_line (c # cs))
      else capture_line (c # cs))"

fun match_alternatives :: "string list \<Rightarrow> string \<Rightarrow> string option" where
  "match_alternatives [] s = None"
| "match_alternatives (k # ks) s =
     (if ci_prefix k s
      then (case skip_space_capture (drop (length k) s) of
              Some g \<Rightarrow> Some g
            | None \<Rightarrow> match_alternatives ks s)
      else match_alternatives ks s)"

fun regex_search :: "string list \<Rightarrow> string \<Rightarrow> string option" where
  "regex_search alts [] = match_alternatives alts []"
| "regex_search alts (c # cs) =
     (case match_alternatives alts (c # cs) of Some g \<Rightarrow> Some g | None \<Rightarrow> regex_search alts cs)"

definition answer_pattern_1 :: "string list" where
  "answer_pattern_1 = [''answer:'', ''conclusion:'', ''therefore:'', ''finally:'', ''result:'']"

definition answer_pattern_2 :: "string list" where
  "answer_pattern_2 = [''the answer is'', ''the result is'', ''we conclude that'']"

definition extractFinalAnswer :: "string \<Rightarrow> string" where
  "extractFinalAnswer resp =
     (case regex_search answer_pattern_1 resp of
        Some g \<Rightarrow> trim g
      | None \<Rightarrow>
          (case regex_search answer_pattern_2 resp of
             Some g \<Rightarrow> trim g
           | None \<Rightarrow>
               (let sentences = filter (\<lambda>s. length (trim s) > 10) (split resp ''.'')
                in or_else (Some ((if sentences = [] then ''undefined'' else trim (last sentences)) @ ''.''))
                     resp)))"

definition calculateConfidence :: "rounding \<Rightarrow> reasoning_step list \<Rightarrow> rat" where
  "calculateConfidence rnd rs =
     (if length rs = 0 then rnd (1 / 2)
      else min (js_add rnd
                  (js_div rnd (foldl (\<lambda>sum step. js_add rnd sum (confidence step)) 0 rs)
                     (rat_of_nat (length rs)))
                  (min (js_mul rnd (rat_of_nat (length rs)) (rnd (5 / 100))) (rnd (2 / 10))))
               (rnd 1))"

definition buildChainOfThoughtPrompt :: "string \<Rightarrow> string option \<Rightarrow> string" where
  "buildChainOfThoughtPrompt inp context =
     ''Please solve this step by step, showing your reasoning:'' @ nl @ nl @ inp
     @ (case context of None \<Rightarrow> [] | Some json \<Rightarrow> nl @ nl @ ''Context: '' @ json)
     @ nl @ nl @ ''Think through this systematically, numbering each step of your reasoning.''"

definition chainOfThought :: "rounding \<Rightarrow> generator \<Rightarrow> chat_request list \<Rightarrow> reasoning_request \<Rightarrow> (thrown + reasoning_result) \<times> chat_request list" where
  "chainOfThought rnd gen sent request =
     (case create gen sent
             \<lparr>req_model = ''gpt-4'',
              req_system = ''You are an advanced reasoning system. Think step by step, showing your reasoning process clearly. Each step should be numbered and explain your thought process.'',
              req_user = buildChainOfThoughtPrompt (request_input request) (request_context request),
              req_max_tokens = (case request_max_tokens request of None \<Rightarrow> 2000 | Some m \<Rightarrow> if m = 0 then 2000 else m),
              req_temperature = (case request_temperature request of None \<Rightarrow> 7 / 10 | Some t \<Rightarrow> if t = 0 then 7 / 10 else t)\<rparr> of
        (Inl error, sent') \<Rightarrow> (Inl error, sent')
      | (Inr completion, sent') \<Rightarrow>
          (let resp = or_else (content completion) [];
               parsed = parseChainOfThoughtReasoning rnd resp
           in (Inr \<lparr>response = extractFinalAnswer resp, reasoning = parsed,
                    result_confidence = calculateConfidence rnd parsed, processing_time = 0,
                    tokens_used = or_zero (total_tokens completion)\<rparr>, sent')))"

subsection \<open>ReAct\<close>

fun previous_steps_text :: "reasoning_step list \<Rightarrow> string" where
  \<comment> \<open>the \<open>forEach\<close> of \<open>buildReactThoughtPrompt\<close>\<close>
  "previous_steps_text [] = []"
| "previous_steps_text (step # rest) =
     ''Step '' @ string_of_nat (rs_number step) @ '': '' @ thought step @ nl
     @ (case action step of None \<Rightarrow> [] | Some a \<Rightarrow> if a = [] then [] else ''Action: '' @ a @ nl)
     @ (case observation step of None \<Rightarrow> [] | Some ob \<Rightarrow> if ob = [] then [] else ''Observation: '' @ ob @ nl)
     @ previous_steps_text rest"

definition buildReactThoughtPrompt :: "string \<Rightarrow> reasoning_step list \<Rightarrow> string" where
  \<comment> \<open>the parameter \<open>context\<close> of the source is not used by it\<close>
  "buildReactThoughtPrompt inp previousReasoning =
     ''Question: '' @ inp @ nl @ nl
     @ (if length previousReasoning > 0
        then ''Previous reasoning steps:'' @ nl @ previous_steps_text previousReasoning @ nl
        else [])
     @ ''THOUGHT: What should I think about next to solve this problem?''"

definition buildReactActionPrompt :: "string \<Rightarrow> string \<Rightarrow> string" where
  "buildReactActionPrompt th inp =
     ''Given this thought: '' @ dquote @ th @ dquote @ nl @ nl
     @ ''For the question: '' @ dquote @ inp @ dquote @ nl @ nl
     @ ''What ACTION should I take? (SEARCH, CALCULATE, ANALYZE, or ANSWER)''"

definition executeAction :: "string \<Rightarrow> string \<Rightarrow> string" where
  "executeAction act inp =
     (if includes_str (toUpperCase act) ''SEARCH''
        then ''Search results: [Simulated search results related to the query]''
      else if includes_str (toUpperCase act) ''CALCULATE''
        then ''Calculation complete: [Simulated calculation result]''
      else if includes_str (toUpperCase act) ''ANALYZE''
        then ''Analysis: [Simulated analysis results]''
      else if includes_str (toUpperCase act) ''ANSWER''
        then ''Final answer based on previous reasoning steps.''
      else ''Action executed successfully.'')"

definition thought_request :: "string \<Rightarrow> reasoning_step list \<Rightarrow> chat_request" where
  "thought_request currentInput rs =
     \<lparr>req_model = ''gpt-4'',
      req_system = ''You are using the ReAct methodology. Generate a THOUGHT about what you should do next to solve this problem.'',
      req_user = buildReactThoughtPrompt currentInput rs,
      req_max_tokens = 300, req_temperature = 7 / 10\<rparr>"

definition action_request :: "string \<Rightarrow> string \<Rightarrow> chat_request" where
  "action_request th currentInput =
     \<lparr>req_model = ''gpt-4'',
      req_system = ''Based on your thought, decide what ACTION to take. Actions can be: SEARCH, CALCULATE, ANALYZE, or ANSWER.'',
      req_user = buildReactActionPrompt th currentInput,
      req_max_tokens = 200, req_temperature = 3 / 10\<rparr>"

text \<open>The \<open>while\<close> loop of \<open>reactMethodology\<close>.  Its state is \<open>iteration\<close>,
  \<open>currentInput\<close>, the array \<open>reasoning\<close> (here \<open>rs\<close>) and \<open>totalTokens\<close>; a thrown
  value leaves the loop and the function.\<close>

function react_loop :: "rounding \<Rightarrow> generator \<Rightarrow> nat \<Rightarrow> nat \<Rightarrow> string \<Rightarrow> reasoning_step list \<Rightarrow> nat \<Rightarrow> chat_request list \<Rightarrow> (thrown + reasoning_step list \<times> nat) \<times> chat_request list" where
  "react_loop rnd gen maxIterations iteration currentInput rs totalTokens sent =
     (if iteration < maxIterations then
        (case create gen sent (thought_request currentInput rs) of
           (Inl error, sent1) \<Rightarrow> (Inl error, sent1)
         | (Inr thoughtCompletion, sent1) \<Rightarrow>
             (case create gen sent1 (action_request (or_else (content thoughtCompletion) []) currentInput) of
                (Inl error, sent2) \<Rightarrow> (Inl error, sent2)
              | (Inr actionCompletion, sent2) \<Rightarrow>
                  (if includes_str (toUpperCase (or_else (content actionCompletion) [])) ''ANSWER''
                   then (Inr (rs @ [\<lparr>rs_number = iteration + 1, rs_type = ''react'',
                                      thought = or_else (content thoughtCompletion) [],
                                      action = Some (or_else (content actionCompletion) []),
                                      observation = Some (executeAction (or_else (content actionCompletion) []) currentInput),
                                      confidence = rnd (8 / 10)\<rparr>],
                              totalTokens + or_zero (total_tokens thoughtCompletion)
                                + or_zero (total_tokens actionCompletion)), sent2)
                   else react_loop rnd gen maxIterations (iteration + 1)
                          (currentInput @ nl @ nl
                           @ ''Previous reasoning: '' @ or_else (content thoughtCompletion) [] @ nl
                           @ ''Action taken: '' @ or_else (content actionCompletion) [] @ nl
                           @ ''Result: '' @ executeAction (or_else (content actionCompletion) []) currentInput)
                          (rs @ [\<lparr>rs_number = iteration + 1, rs_type = ''react'',
                                   thought = or_else (content thoughtCompletion) [],
                                   action = Some (or_else (content actionCompletion) []),
                                   observation = Some (executeAction (or_else (content actionCompletion) []) currentInput),
                                   confidence = rnd (8 / 10)\<rparr>])
                          (totalTokens + or_zero (total_tokens thoughtCompletion)
                             + or_zero (total_tokens actionCompletion))
                          sent2)))
      else (Inr (rs, totalTokens), sent))"
  by pat_completeness auto
termination
  by (relation "measure (\<lambda>(rnd, gen, maxIterations, iteration, rest). maxIterations - iteration)") auto

declare react_loop.simps [simp del]

definition last_observation :: "reasoning_step list \<Rightarrow> string option" where
  \<comment> \<open>\<open>reasoning[reasoning.length - 1]?.observation\<close>\<close>
  "last_observation rs = (if rs = [] then None else observation (last rs))"

definition reactMethodology :: "rounding \<Rightarrow> generator \<Rightarrow> chat_request list \<Rightarrow> reasoning_request \<Rightarrow> (thrown + reasoning_result) \<times> chat_request list" where
  "reactMethodology rnd gen sent request =
     (case react_loop rnd gen 5 0 (request_input request) [] 0 sent of
        (Inl error, sent') \<Rightarrow> (Inl error, sent')
      | (Inr (rs, totalTokens), sent') \<Rightarrow>
          (Inr \<lparr>response = or_else (last_observation rs) ''Could not determine answer'',
                reasoning = rs, result_confidence = calculateConfidence rnd rs,
                processing_time = 0, tokens_used = totalTokens\<rparr>, sent'))"

subsection \<open>Statistics of the reasoning engine\<close>

definition r_updateStats :: "rounding \<Rightarrow> reasoning_stats \<Rightarrow> rat \<Rightarrow> rat \<Rightarrow> bool \<Rightarrow> reasoning_stats" where
  \<comment> \<open>\<open>ReasoningEngine.updateStats\<close>, reached from \<open>process\<close> after the counter was incremented\<close>
  "r_updateStats rnd st processingTime tokensUsed ok =
     (let n = rat_of_nat (total_processes st)
      in st\<lparr>r_success_rate :=
               js_div rnd (js_add rnd (js_mul rnd (r_success_rate st) (js_sub rnd n 1)) (if ok then 1 else 0)) n,
             avg_processing_time :=
               js_div rnd (js_add rnd (js_mul rnd (avg_processing_time st) (js_sub rnd n 1)) processingTime) n,
             avg_tokens_used :=
               js_div rnd (js_add rnd (js_mul rnd (avg_tokens_used st) (js_sub rnd n 1)) tokensUsed) n\<rparr>)"

definition completed_process :: "rounding \<Rightarrow> reasoning_stats \<Rightarrow> rat \<times> rat \<times> bool \<Rightarrow> reasoning_stats" where
  \<comment> \<open>one call of \<open>process\<close>: \<open>total_processes++\<close> at entry, \<open>updateStats\<close> once at exit\<close>
  "completed_process rnd st outcome =
     (case outcome of (processingTime, tokensUsed, ok) \<Rightarrow>
        r_updateStats rnd (st\<lparr>total_processes := total_processes st + 1\<rparr>) processingTime tokensUsed ok)"

section \<open>Example inputs\<close>

text \<open>Three of the agents registered by \<open>initializePredefinedAgents\<close>, a registry holding
  them, and generators with fixed behaviour.\<close>

definition analyst :: agent where
  "analyst =
     \<lparr>agent_id = ''analyst'', agent_name = ''Data Analyst'', role = ''Analysis and Research'',
      capabilities = [''data_analysis'', ''research'', ''pattern_recognition'', ''statistical_analysis''],
      agent_model = ''gpt-4'', temperature = 3 / 10, max_tokens = 1000,
      system_prompt = ''You are an expert data analyst. Analyze information objectively, identify patterns, and provide evidence-based insights. Focus on accuracy and statistical significance.'',
      tools = Some [''calculator'', ''data_visualization'', ''statistical_tests'']\<rparr>"

definition creative :: agent where
  "creative =
     \<lparr>agent_id = ''creative'', agent_name = ''Creative Designer'', role = ''Creative and Design'',
      capabilities = [''creative_writing'', ''design_thinking'', ''brainstorming'', ''visual_concepts''],
      agent_model = ''gpt-4'', temperature = 8 / 10, max_tokens = 1200,
      system_prompt = ''You are a creative professional specializing in innovative thinking and design. Generate original ideas, think outside the box, and create engaging content.'',
      tools = Some [''image_generation'', ''color_palette'', ''typography'']\<rparr>"

definition technical :: agent where
  "technical =
     \<lparr>agent_id = ''technical'', agent_name = ''Technical Architect'', role = ''Technical Implementation'',
      capabilities = [''software_architecture'', ''code_review'', ''system_design'', ''performance_optimization''],
      agent_model = ''gpt-4'', temperature = 2 / 10, max_tokens = 1500,
      system_prompt = ''You are a senior technical architect. Focus on scalable solutions, best practices, security, and performance. Provide detailed technical specifications.'',
      tools = Some [''code_analysis'', ''architecture_diagrams'', ''performance_testing'']\<rparr>"

definition example_orchestrator :: orchestrator where
  "example_orchestrator =
     \<lparr>registered_agents = [''analyst'' \<mapsto> analyst, ''creative'' \<mapsto> creative, ''technical'' \<mapsto> technical],
      stats = initial_stats binary64\<rparr>"

definition reply :: "string \<Rightarrow> thrown + completion" where
  "reply s = Inr \<lparr>content = Some s, total_tokens = Some 10\<rparr>"

definition gen_ok :: generator where
  \<comment> \<open>every request is answered with the same text\<close>
  "gen_ok sent req = reply ''Noted.''"

definition gen_second_fails :: generator where
  \<comment> \<open>the second request dispatched fails, every other one is answered\<close>
  "gen_second_fails sent req =
     (if length sent = 1 then Inl (Error ''Request timed out.'') else reply ''Noted.'')"

definition gen_all_fail :: generator where
  "gen_all_fail sent req = Inl (Error ''Request timed out.'')"

definition launch_request :: collaboration_request where
  "launch_request =
     \<lparr>task = ''Plan a launch'', agents = [''analyst'', ''creative'', ''technical''], ctype = Sequential\<rparr>"

definition failing_run :: collaboration_result where
  \<comment> \<open>three agents in sequence, the request of the second one fails\<close>
  "failing_run =
     fst (sequentialCollaboration gen_second_fails [] launch_request [analyst, creative, technical])"

definition gen_answer_second :: generator where
  \<comment> \<open>the fourth request, the second choice of an action, is answered with an answer\<close>
  "gen_answer_second sent req =
     (if length sent = 3 then reply ''ANSWER: it is settled.'' else reply ''Search for more.'')"

definition question :: reasoning_request where
  "question =
     \<lparr>request_input = ''Why is the sky blue?'', request_context = None,
      request_max_tokens = None, request_temperature = None\<rparr>"

definition gen_reply :: "string \<Rightarrow> generator" where
  \<comment> \<open>every request is answered with the given text\<close>
  "gen_reply text sent req = reply text"

definition short_breakdown :: string where
  \<comment> \<open>two paragraphs of exactly 50 characters\<close>
  "short_breakdown =
     ''Collect the sales figures of last quarter by area.'' @ nl @ nl
     @ ''Draft the two page summary for the steering board.''"

definition long_breakdown :: string where
  \<comment> \<open>two paragraphs of 56 and 54 characters\<close>
  "long_breakdown =
     ''Collect the sales figures of the last quarter by region.'' @ nl @ nl
     @ ''Draft the two page summary for the steering committee.''"

definition review_request :: collaboration_request where
  "review_request =
     \<lparr>task = ''Prepare the quarterly review'', agents = [''analyst'', ''creative'', ''technical''],
      ctype = Hierarchical\<rparr>"

definition parsed_step :: reasoning_step where
  \<comment> \<open>a step as \<open>parseChainOfThoughtReasoning\<close> records it for a numbered line\<close>
  "parsed_step =
     \<lparr>rs_number = 1, rs_type = ''chain-of-thought'', thought = ''1. Add the two numbers.'',
      action = None, observation = None, confidence = binary64 (8 / 10)\<rparr>"

definition outcomes_23 :: "(rat \<times> rat \<times> bool) list" where
  \<comment> \<open>23 collaborations of one second with two agents each, 16 of them successful\<close>
  "outcomes_23 =
     map (\<lambda>ok. (1000, 2, ok))
       [False, False, False, True, True, False, True, True, False, True, True, True,
        True, False, True, False, True, True, True, True, True, True, True]"

section \<open>Auxiliary notions\<close>

definition chained :: "collaboration_step list \<Rightarrow> bool" where
  \<comment> \<open>every step but the first takes the output of the step before it\<close>
  "chained ss = (\<forall>i. 0 < i \<and> i < length ss \<longrightarrow> step_input (ss ! i) = step_output (ss ! (i - 1)))"

definition is_answer_step :: "reasoning_step \<Rightarrow> bool" where
  \<comment> \<open>the test \<open>action.toUpperCase().includes('ANSWER')\<close> on a recorded step\<close>
  "is_answer_step s =
     (case action s of None \<Rightarrow> False | Some a \<Rightarrow> includes_str (toUpperCase a) ''ANSWER'')"

definition react_step :: "rounding \<Rightarrow> nat \<Rightarrow> string \<Rightarrow> completion \<Rightarrow> completion \<Rightarrow> reasoning_step" where
  \<comment> \<open>the step pushed by an iteration of \<open>reactMethodology\<close>\<close>
  "react_step rnd iteration currentInput thoughtCompletion actionCompletion =
     \<lparr>rs_number = iteration + 1, rs_type = ''react'',
      thought = or_else (content thoughtCompletion) [],
      action = Some (or_else (content actionCompletion) []),
      observation = Some (executeAction (or_else (content actionCompletion) []) currentInput),
      confidence = rnd (8 / 10)\<rparr>"

definition react_inv :: "nat \<Rightarrow> reasoning_step list \<Rightarrow> bool" where
  \<comment> \<open>what holds of \<open>reasoning\<close> at the head of the loop when \<open>iteration\<close> is \<open>it\<close>\<close>
  "react_inv it rs = (length rs = it \<and> list_all (\<lambda>s. \<not> is_answer_step s) rs
     \<and> map rs_number rs = [1 ..< it + 1]
     \<and> list_all (\<lambda>s. \<exists>ob. observation s = Some ob \<and> ob \<noteq> []) rs)"

section \<open>Validation precedes every request\<close>

lemma lookup_agents_absent:
  "\<exists>i \<in> set ids. registry i = None \<Longrightarrow>
   \<exists>i \<in> set ids. registry i = None \<and>
     lookup_agents registry ids found = Inl (Error (''Agent not found: '' @ i))"
  by (induction ids arbitrary: found) (auto split: option.splits)

lemma lookup_agents_present:
  "\<forall>i \<in> set ids. registry i \<noteq> None \<Longrightarrow>
   lookup_agents registry ids found = Inr (found @ map (\<lambda>i. the (registry i)) ids)"
  by (induction ids arbitrary: found) (auto split: option.splits)

text \<open>
  Claim C9.  Whatever the collaboration type, the generator and the state: with an empty
  list of agent ids \<open>collaborate\<close> throws \<open>No valid agents provided\<close>, with an id that is
  not registered it throws \<open>Agent not found\<close> for such an id, and in both cases the list
  of dispatched requests is the one it started with: no request was issued.
\<close>

theorem collaborate_rejects_before_any_request:
  "(agents request = [] \<longrightarrow>
      (\<exists>this'. collaborate rnd gen elapsed this sent request
                = (Inl (Error ''No valid agents provided''), this', sent)))
   \<and> ((\<exists>i \<in> set (agents request). registered_agents this i = None) \<longrightarrow>
      (\<exists>i \<in> set (agents request). \<exists>this'. registered_agents this i = None \<and>
          collaborate rnd gen elapsed this sent request
            = (Inl (Error (''Agent not found: '' @ i)), this', sent)))"
proof (intro conjI impI)
  assume "agents request = []"
  then show "\<exists>this'. collaborate rnd gen elapsed this sent request
                = (Inl (Error ''No valid agents provided''), this', sent)"
    by (simp add: collaborate_def validateAndGetAgents_def Let_def)
next
  assume "\<exists>i \<in> set (agents request). registered_agents this i = None"
  from lookup_agents_absent [OF this, of "[]"]
  obtain i where "i \<in> set (agents request)" "registered_agents this i = None"
    "lookup_agents (registered_agents this) (agents request) []
       = Inl (Error (''Agent not found: '' @ i))"
    by blast
  then show "\<exists>i \<in> set (agents request). \<exists>this'. registered_agents this i = None \<and>
          collaborate rnd gen elapsed this sent request
            = (Inl (Error (''Agent not found: '' @ i)), this', sent)"
    by (auto simp: collaborate_def validateAndGetAgents_def Let_def intro!: bexI [of _ i])
qed

theorem collaborate_rejects_witness:
  "agents \<lparr>task = ''Plan a launch'', agents = [], ctype = Parallel\<rparr> = []
   \<and> (\<exists>i \<in> set (agents \<lparr>task = ''Plan a launch'', agents = [''analyst'', ''ghost''], ctype = Sequential\<rparr>).
         registered_agents example_orchestrator i = None)
   \<and> fst (collaborate binary64 gen_ok 12 example_orchestrator []
             \<lparr>task = ''Plan a launch'', agents = [], ctype = Parallel\<rparr>)
       = Inl (Error ''No valid agents provided'')
   \<and> snd (snd (collaborate binary64 gen_ok 12 example_orchestrator []
             \<lparr>task = ''Plan a launch'', agents = [], ctype = Parallel\<rparr>)) = []
   \<and> fst (collaborate binary64 gen_ok 12 example_orchestrator []
             \<lparr>task = ''Plan a launch'', agents = [''analyst'', ''ghost''], ctype = Sequential\<rparr>)
       = Inl (Error ''Agent not found: ghost'')
   \<and> snd (snd (collaborate binary64 gen_ok 12 example_orchestrator []
             \<lparr>task = ''Plan a launch'', agents = [''analyst'', ''ghost''], ctype = Sequential\<rparr>)) = []"
  using collaborate_rejects_before_any_request
      [of "\<lparr>task = ''Plan a launch'', agents = [], ctype = Parallel\<rparr>"
          binary64 gen_ok 12 example_orchestrator "[]"]
    collaborate_rejects_before_any_request
      [of "\<lparr>task = ''Plan a launch'', agents = [''analyst'', ''ghost''], ctype = Sequential\<rparr>"
          binary64 gen_ok 12 example_orchestrator "[]"]
  by (auto simp: example_orchestrator_def)

section \<open>The final answer of the direct strategy\<close>

text \<open>
  Claim C10.  When neither pattern matches the response and no piece between full stops
  has more than 10 characters after trimming, \<open>extractFinalAnswer\<close> returns the text
  \<open>undefined.\<close>: the last element of the empty array is \<open>undefined\<close>, to which the full
  stop is appended, and the result is never falsy, so the response itself is not returned.
\<close>

theorem extractFinalAnswer_undefined:
  assumes "regex_search answer_pattern_1 resp = None"
    and "regex_search answer_pattern_2 resp = None"
    and "\<forall>s \<in> set (split resp ''.''). length (trim s) \<le> 10"
  shows "extractFinalAnswer resp = ''undefined.''"
proof -
  have "filter (\<lambda>s. length (trim s) > 10) (split resp ''.'') = []"
    using assms(3) by (auto simp: filter_empty_conv)
  then show ?thesis
    using assms(1,2) by (simp add: extractFinalAnswer_def)
qed

theorem extractFinalAnswer_undefined_witness:
  "regex_search answer_pattern_1 [] = None \<and> regex_search answer_pattern_2 [] = None
   \<and> list_all (\<lambda>s. length (trim s) \<le> 10) (split [] ''.'')
   \<and> extractFinalAnswer [] = ''undefined.''"
  using extractFinalAnswer_undefined [of "[]"]
  by (simp add: answer_pattern_1_def answer_pattern_2_def trim_def)
section \<open>Sequential collaboration\<close>

lemma chained_snoc:
  assumes "chained ss" and "ss \<noteq> [] \<Longrightarrow> step_input s = step_output (last ss)"
  shows "chained (ss @ [s])"
  unfolding chained_def
proof (intro allI impI)
  fix i assume i: "0 < i \<and> i < length (ss @ [s])"
  show "step_input ((ss @ [s]) ! i) = step_output ((ss @ [s]) ! (i - 1))"
  proof (cases "i < length ss")
    case True
    then have "i - 1 < length ss" by simp
    with True have "(ss @ [s]) ! i = ss ! i" "(ss @ [s]) ! (i - 1) = ss ! (i - 1)"
      by (simp_all only: nth_append if_True)
    moreover from i True assms(1) have "step_input (ss ! i) = step_output (ss ! (i - 1))"
      unfolding chained_def by blast
    ultimately show ?thesis by simp
  next
    case False
    with i have eq: "i = length ss" and ne: "ss \<noteq> []" by auto
    from ne have "length ss - 1 < length ss" by (cases ss) simp_all
    then have "(ss @ [s]) ! (length ss - 1) = ss ! (length ss - 1)"
      by (simp only: nth_append if_True)
    with assms(2) [OF ne] eq ne show ?thesis
      by (simp add: last_conv_nth)
  qed
qed

lemma sequential_loop_chained:
  assumes "sequential_loop gen n i selected cur acc sent = ((ss, ok), sent')"
    and "chained acc" and "acc \<noteq> [] \<Longrightarrow> step_output (last acc) = cur"
  shows "chained ss"
  using assms
proof (induction selected arbitrary: i cur acc sent)
  case Nil
  then show ?case by simp
next
  case (Cons a rest)
  show ?case
  proof (cases "executeAgentTask gen sent a (buildAgentPrompt a cur i n ''sequential'')")
    case (Pair outcome sent1)
    show ?thesis
    proof (cases outcome)
      case (Inl e)
      with Pair Cons.prems(1) have "ss = acc @ [\<lparr>step_number = i + 1, step_agent = a, step_input = cur,
                       step_output = ''Error: '' @ error_message e, step_success = False\<rparr>]"
        by simp
      then show ?thesis using Cons.prems(2,3) by (simp add: chained_snoc)
    next
      case (Inr resp)
      let ?s = "\<lparr>step_number = i + 1, step_agent = a, step_input = cur,
                        step_output = resp, step_success = True\<rparr>"
      from Inr Pair Cons.prems(1)
      have "sequential_loop gen n (i + 1) rest resp (acc @ [?s]) sent1 = ((ss, ok), sent')"
        by simp
      moreover have "chained (acc @ [?s])" using Cons.prems(2,3) by (simp add: chained_snoc)
      ultimately show ?thesis by (rule Cons.IH) simp_all
    qed
  qed
qed

text \<open>
  Claim C5.  In the result of a sequential collaboration, whatever the agents and the
  generator, every step after the first has as input the output of the step before it;
  this includes a failed step, which is always the last one.
\<close>

theorem sequential_input_is_previous_output:
  assumes "sequentialCollaboration gen sent request selected = (r, sent')"
    and "0 < i" and "i < length (steps r)"
  shows "step_input (steps r ! i) = step_output (steps r ! (i - 1))"
proof -
  obtain ss ok sent1 where l: "sequential_loop gen (length selected) 0 selected (task request) [] sent = ((ss, ok), sent1)"
    by (metis surj_pair)
  with assms(1) have "steps r = ss" by (auto simp: sequentialCollaboration_def)
  moreover from l have "chained ss" by (rule sequential_loop_chained) (simp_all add: chained_def)
  ultimately show ?thesis using assms(2,3) by (simp add: chained_def)
qed

theorem sequential_input_is_previous_output_witness:
  "sequentialCollaboration gen_second_fails [] launch_request [analyst, creative, technical]
     = (failing_run, snd (sequentialCollaboration gen_second_fails [] launch_request [analyst, creative, technical]))
   \<and> (0 :: nat) < 1 \<and> 1 < length (steps failing_run)
   \<and> \<not> step_success (steps failing_run ! 1)
   \<and> step_input (steps failing_run ! 1) = step_output (steps failing_run ! (1 - 1))"
proof -
  have run: "sequentialCollaboration gen_second_fails [] launch_request [analyst, creative, technical]
     = (failing_run, snd (sequentialCollaboration gen_second_fails [] launch_request [analyst, creative, technical]))"
    by (simp add: failing_run_def)
  have len: "length (steps failing_run) = 2" "\<not> step_success (steps failing_run ! 1)"
    by (simp_all add: failing_run_def sequentialCollaboration_def executeAgentTask_def create_def
        gen_second_fails_def reply_def last_output_def)
  from len have "(1 :: nat) < length (steps failing_run)" by simp
  from sequential_input_is_previous_output [OF run _ this] run len show ?thesis by simp
qed

text \<open>
  Claim C1, as the code has it.  With three agents, the first request answered and the
  second one failing, the result has exactly two steps, the second step is marked as
  failed, the collaboration is marked as failed, and \<open>final_result\<close> is the output of the
  last step recorded, that is the text \<open>Error: \<close> followed by the message of the failure.
  It is not the output of the first step: \<open>sequential_final_result_counterexample\<close>.
\<close>

theorem sequential_second_fails:
  assumes "executeAgentTask gen sent a0 (buildAgentPrompt a0 (task request) 0 3 ''sequential'') = (Inr out0, sent1)"
    and "executeAgentTask gen sent1 a1 (buildAgentPrompt a1 out0 1 3 ''sequential'') = (Inl e, sent2)"
  shows "\<exists>r. sequentialCollaboration gen sent request [a0, a1, a2] = (r, sent2)
           \<and> length (steps r) = 2
           \<and> step_success (steps r ! 0) \<and> step_output (steps r ! 0) = out0
           \<and> \<not> step_success (steps r ! 1) \<and> step_input (steps r ! 1) = out0
           \<and> \<not> success r
           \<and> final_result r = step_output (steps r ! 1)
           \<and> final_result r = ''Error: '' @ error_message e"
  using assms by (simp add: sequentialCollaboration_def last_output_def numeral_3_eq_3)

theorem sequential_second_fails_witness:
  "executeAgentTask gen_second_fails [] analyst (buildAgentPrompt analyst (task launch_request) 0 3 ''sequential'')
     = (Inr ''Noted.'', [agent_request analyst (buildAgentPrompt analyst (task launch_request) 0 3 ''sequential'')])
   \<and> fst (executeAgentTask gen_second_fails
            [agent_request analyst (buildAgentPrompt analyst (task launch_request) 0 3 ''sequential'')]
            creative (buildAgentPrompt creative ''Noted.'' 1 3 ''sequential''))
       = Inl (Error ''Request timed out.'')
   \<and> final_result failing_run = ''Error: Request timed out.''
   \<and> length (steps failing_run) = 2"
proof -
  let ?r0 = "agent_request analyst (buildAgentPrompt analyst (task launch_request) 0 3 ''sequential'')"
  let ?r1 = "agent_request creative (buildAgentPrompt creative ''Noted.'' 1 3 ''sequential'')"
  have h0: "executeAgentTask gen_second_fails [] analyst (buildAgentPrompt analyst (task launch_request) 0 3 ''sequential'')
     = (Inr ''Noted.'', [?r0])"
    by (simp add: executeAgentTask_def create_def gen_second_fails_def reply_def)
  have h1: "executeAgentTask gen_second_fails [?r0] creative (buildAgentPrompt creative ''Noted.'' 1 3 ''sequential'')
     = (Inl (Error ''Request timed out.''), [?r0, ?r1])"
    by (simp add: executeAgentTask_def create_def gen_second_fails_def reply_def)
  from sequential_second_fails [OF h0 h1, of technical] h0 h1
  show ?thesis by (auto simp: failing_run_def)
qed

theorem sequential_final_result_counterexample:
  "length (steps failing_run) = 2 \<and> step_success (steps failing_run ! 0)
   \<and> \<not> step_success (steps failing_run ! 1) \<and> \<not> success failing_run
   \<and> final_result failing_run \<noteq> step_output (steps failing_run ! 0)
   \<and> step_output (steps failing_run ! 0) = ''Noted.''
   \<and> final_result failing_run = ''Error: Request timed out.''"
  by (simp add: failing_run_def sequentialCollaboration_def executeAgentTask_def create_def
      gen_second_fails_def reply_def last_output_def)

section \<open>Parallel collaboration\<close>

lemma parallel_branches_shape:
  "parallel_branches gen t n idx selected sent = (results, sent') \<Longrightarrow>
   length results = length selected
   \<and> (\<forall>i < length selected. step_number (results ! i) = idx + i + 1
          \<and> step_agent (results ! i) = selected ! i \<and> step_input (results ! i) = t)
   \<and> sent' = sent @ map (\<lambda>(index, agent). agent_request agent (buildAgentPrompt agent t index n ''parallel''))
                      (enumerate idx selected)"
proof (induction selected arbitrary: idx sent results sent')
  case Nil
  then show ?case by simp
next
  case (Cons a rest)
  obtain outcome sent1 where e: "executeAgentTask gen sent a (buildAgentPrompt a t idx n ''parallel'') = (outcome, sent1)"
    by (metis surj_pair)
  obtain rs sent2 where r: "parallel_branches gen t n (idx + 1) rest sent1 = (rs, sent2)"
    by (metis surj_pair)
  from e have s1: "sent1 = sent @ [agent_request a (buildAgentPrompt a t idx n ''parallel'')]"
    by (auto simp: executeAgentTask_def create_def split: sum.splits)
  from Cons.prems e r obtain s where res: "results = s # rs" "sent' = sent2"
    and s: "step_number s = idx + 1" "step_agent s = a" "step_input s = t"
    by (auto split: sum.splits)
  from Cons.IH [OF r] have ih: "length rs = length rest"
    "\<forall>i < length rest. step_number (rs ! i) = idx + 1 + i + 1
          \<and> step_agent (rs ! i) = rest ! i \<and> step_input (rs ! i) = t"
    "sent2 = sent1 @ map (\<lambda>(index, agent). agent_request agent (buildAgentPrompt agent t index n ''parallel''))
                      (enumerate (idx + 1) rest)"
    by auto
  show ?case
  proof (intro conjI allI impI)
    show "length results = length (a # rest)" using res ih by simp
  next
    fix i assume "i < length (a # rest)"
    then show "step_number (results ! i) = idx + i + 1" using res s ih by (cases i) auto
  next
    fix i assume "i < length (a # rest)"
    then show "step_agent (results ! i) = (a # rest) ! i" using res s ih by (cases i) auto
  next
    fix i assume "i < length (a # rest)"
    then show "step_input (results ! i) = t" using res s ih by (cases i) auto
  next
    show "sent' = sent @ map (\<lambda>(index, agent). agent_request agent (buildAgentPrompt agent t index n ''parallel''))
                      (enumerate idx (a # rest))"
      using res ih s1 by simp
  qed
qed

text \<open>
  Claim C2.  A parallel collaboration that returns has one step per agent, in the order of
  the agents, the step at index \<open>i\<close> numbered \<open>i + 1\<close>, and its flag \<open>success\<close> is the
  conjunction of the flags of the steps.  (It returns unless the synthesis request
  itself fails: see \<open>parallel_synthesis_calls\<close>.)
\<close>

theorem parallel_one_step_per_agent:
  assumes "parallelCollaboration gen sent request selected = (Inr r, sent')"
  shows "length (steps r) = length selected
    \<and> (\<forall>i < length selected. step_number (steps r ! i) = i + 1 \<and> step_agent (steps r ! i) = selected ! i)
    \<and> success r = (\<forall>s \<in> set (steps r). step_success s)"
proof -
  obtain results sent1 where b: "parallel_branches gen (task request) (length selected) 0 selected sent = (results, sent1)"
    by (metis surj_pair)
  with assms have "steps r = results" "success r = list_all step_success results"
    by (auto simp: parallelCollaboration_def split: prod.splits sum.splits)
  with parallel_branches_shape [OF b] show ?thesis
    by (simp add: list_all_iff)
qed

theorem parallel_one_step_per_agent_witness:
  "\<exists>r sent'. parallelCollaboration gen_second_fails [] launch_request [analyst, creative, technical] = (Inr r, sent')
      \<and> length (steps r) = 3 \<and> map step_number (steps r) = [1, 2, 3]
      \<and> map step_success (steps r) = [True, False, True] \<and> \<not> success r"
proof -
  obtain r sent' where run:
    "parallelCollaboration gen_second_fails [] launch_request [analyst, creative, technical] = (Inr r, sent')"
    and flags: "map step_number (steps r) = [1, 2, 3]" "map step_success (steps r) = [True, False, True]"
    by (simp add: parallelCollaboration_def synthesizeParallelResults_def executeAgentTask_def
        create_def gen_second_fails_def reply_def)
  from parallel_one_step_per_agent [OF run] have "length (steps r) = 3" "\<not> success r"
    using flags by (auto simp: in_set_conv_nth dest: arg_cong [where f = length])
  with run flags show ?thesis
    by (intro exI [of _ r] exI [of _ sent']) simp
qed

text \<open>
  Claim C7.  The requests of the branches are dispatched first, one per agent.  If no
  branch succeeded, no further request is issued and the collaboration returns, marked as
  failed, with the fixed text.  If some branch succeeded, exactly one further request is
  issued, the synthesis request, and its prompt is built from the successful steps only.
\<close>

theorem parallel_synthesis_calls:
  assumes "parallel_branches gen (task request) (length selected) 0 selected sent = (results, sent1)"
  shows "sent1 = sent @ map (\<lambda>(index, agent). agent_request agent
                    (buildAgentPrompt agent (task request) index (length selected) ''parallel''))
                  (enumerate 0 selected)
    \<and> (selected \<noteq> [] \<and> filter step_success results = [] \<longrightarrow>
         (\<exists>r. parallelCollaboration gen sent request selected = (Inr r, sent1)
            \<and> final_result r = ''All parallel tasks failed. Unable to synthesize results.''
            \<and> \<not> success r))
    \<and> (filter step_success results \<noteq> [] \<longrightarrow>
         snd (parallelCollaboration gen sent request selected)
           = sent1 @ [parallel_synthesis_request (task request) (filter step_success results)])"
proof (intro conjI impI)
  show "sent1 = sent @ map (\<lambda>(index, agent). agent_request agent
                    (buildAgentPrompt agent (task request) index (length selected) ''parallel''))
                  (enumerate 0 selected)"
    using parallel_branches_shape [OF assms] by simp
next
  assume a: "selected \<noteq> [] \<and> filter step_success results = []"
  from parallel_branches_shape [OF assms] a have "results \<noteq> []" by auto
  with a have "\<not> list_all step_success results"
    by (cases results) (auto simp: filter_empty_conv)
  with a assms show "\<exists>r. parallelCollaboration gen sent request selected = (Inr r, sent1)
            \<and> final_result r = ''All parallel tasks failed. Unable to synthesize results.''
            \<and> \<not> success r"
    by (simp add: parallelCollaboration_def synthesizeParallelResults_def)
next
  assume "filter step_success results \<noteq> []"
  with assms show "snd (parallelCollaboration gen sent request selected)
           = sent1 @ [parallel_synthesis_request (task request) (filter step_success results)]"
    by (auto simp: parallelCollaboration_def synthesizeParallelResults_def create_def Let_def split: sum.splits)
qed

theorem parallel_synthesis_calls_witness:
  "(\<exists>r sent'. parallelCollaboration gen_all_fail [] launch_request [analyst, creative, technical] = (Inr r, sent')
         \<and> length sent' = 3
         \<and> final_result r = ''All parallel tasks failed. Unable to synthesize results.'' \<and> \<not> success r)
   \<and> length (snd (parallelCollaboration gen_second_fails [] launch_request [analyst, creative, technical])) = 4
   \<and> (\<exists>s1 s3. step_success s1 \<and> step_success s3
         \<and> last (snd (parallelCollaboration gen_second_fails [] launch_request [analyst, creative, technical]))
             = parallel_synthesis_request (task launch_request) [s1, s3])"
proof -
  obtain results sent1 where
    b: "parallel_branches gen_all_fail (task launch_request) (length [analyst, creative, technical]) 0
          [analyst, creative, technical] [] = (results, sent1)"
    and none: "filter step_success results = []"
    by (simp add: executeAgentTask_def create_def gen_all_fail_def)
  obtain results' sent1' where
    b': "parallel_branches gen_second_fails (task launch_request) (length [analyst, creative, technical]) 0
          [analyst, creative, technical] [] = (results', sent1')"
    and some: "\<exists>s1 s3. step_success s1 \<and> step_success s3 \<and> filter step_success results' = [s1, s3]"
    by (simp add: executeAgentTask_def create_def gen_second_fails_def reply_def)
  from parallel_synthesis_calls [OF b] none
  have first: "\<exists>r sent'. parallelCollaboration gen_all_fail [] launch_request [analyst, creative, technical] = (Inr r, sent')
         \<and> length sent' = 3
         \<and> final_result r = ''All parallel tasks failed. Unable to synthesize results.'' \<and> \<not> success r"
    by auto
  from parallel_synthesis_calls [OF b'] some
  have "length sent1' = 3"
    and "snd (parallelCollaboration gen_second_fails [] launch_request [analyst, creative, technical])
       = sent1' @ [parallel_synthesis_request (task launch_request) (filter step_success results')]"
    by auto
  with some first show ?thesis by fastforce
qed

section \<open>The ReAct loop\<close>

lemma executeAction_nonempty: "executeAction act inp \<noteq> []"
  by (simp add: executeAction_def)

lemma react_loop_result:
  assumes "react_loop rnd gen m it cur rs tok sent = (Inr (rs', tok'), sent')"
    and "react_inv it rs" and "it \<le> m"
  shows "length rs' \<le> m \<and> length rs \<le> length rs'
     \<and> length sent' = length sent + 2 * (length rs' - length rs)
     \<and> list_all (\<lambda>s. \<not> is_answer_step s) (butlast rs')
     \<and> (length rs' < m \<longrightarrow> rs' \<noteq> [] \<and> is_answer_step (last rs'))
     \<and> map rs_number rs' = [1 ..< length rs' + 1]
     \<and> list_all (\<lambda>s. \<exists>ob. observation s = Some ob \<and> ob \<noteq> []) rs'"
  using assms
proof (induction "m - it" arbitrary: it cur rs tok sent)
  case 0
  then have "\<not> it < m" by simp
  with "0.prems"(1) have "rs' = rs \<and> sent' = sent"
    by (subst (asm) react_loop.simps) simp
  with 0 show ?case
    by (auto simp: react_inv_def list_all_iff dest: in_set_butlastD)
next
  case (Suc n)
  then have lt: "it < m" by simp
  obtain tc where t: "gen sent (thought_request cur rs) = Inr tc"
    using Suc.prems(1) lt by (subst (asm) react_loop.simps) (auto simp: create_def split: sum.splits)
  let ?s1 = "sent @ [thought_request cur rs]"
  let ?ar = "action_request (or_else (content tc) []) cur"
  obtain ac where a: "gen ?s1 ?ar = Inr ac"
    using Suc.prems(1) lt t by (subst (asm) react_loop.simps) (auto simp: create_def split: sum.splits)
  let ?s2 = "?s1 @ [?ar]"
  let ?step = "react_step rnd it cur tc ac"
  have inv: "react_inv it rs" by fact
  show ?case
  proof (cases "is_answer_step ?step")
    case True
    with Suc.prems(1) lt t a have "rs' = rs @ [?step]" "sent' = ?s2"
      by (subst (asm) react_loop.simps; simp add: create_def react_step_def is_answer_step_def)+
    with True inv lt show ?thesis
      by (simp add: react_inv_def react_step_def executeAction_nonempty)
  next
    case False
    let ?cur' = "cur @ nl @ nl
                           @ ''Previous reasoning: '' @ or_else (content tc) [] @ nl
                           @ ''Action taken: '' @ or_else (content ac) [] @ nl
                           @ ''Result: '' @ executeAction (or_else (content ac) []) cur"
    from False Suc.prems(1) lt t a
    have rec: "react_loop rnd gen m (it + 1) ?cur' (rs @ [?step])
        (tok + or_zero (total_tokens tc) + or_zero (total_tokens ac)) ?s2 = (Inr (rs', tok'), sent')"
      by (subst (asm) react_loop.simps) (simp add: create_def react_step_def is_answer_step_def)
    have inv': "react_inv (it + 1) (rs @ [?step])"
      using inv False by (simp add: react_inv_def react_step_def executeAction_nonempty)
    have n: "n = m - (it + 1)" using Suc.hyps(2) by simp
    from Suc.hyps(1) [OF n rec inv'] lt
    show ?thesis using inv by (auto simp: react_inv_def)
  qed
qed

lemma react_loop_requests:
  "it \<le> m \<Longrightarrow> length (snd (react_loop rnd gen m it cur rs tok sent)) \<le> length sent + 2 * (m - it)"
proof (induction "m - it" arbitrary: it cur rs tok sent)
  case 0
  then show ?case by (subst react_loop.simps) simp
next
  case (Suc n)
  then have lt: "it < m" and n: "n = m - (it + 1)" and le: "it + 1 \<le> m" by simp_all
  have ih: "length (snd (react_loop rnd gen m (Suc it) C R T S)) \<le> length S + 2 * (m - Suc it)" for C R T S
    using Suc.hyps(1) [OF n le, of C R T S] by simp
  show ?case
  proof (cases "gen sent (thought_request cur rs)")
    case (Inl e)
    with lt show ?thesis by (subst react_loop.simps) (simp add: create_def)
  next
    case t: (Inr tc)
    show ?thesis
    proof (cases "gen (sent @ [thought_request cur rs]) (action_request (or_else (content tc) []) cur)")
      case (Inl e)
      with lt t show ?thesis by (subst react_loop.simps) (simp add: create_def)
    next
      case a: (Inr ac)
      show ?thesis
      proof (cases "includes_str (toUpperCase (or_else (content ac) [])) ''ANSWER''")
        case True
        with lt t a show ?thesis by (subst react_loop.simps) (simp add: create_def)
      next
        case False
        with lt t a show ?thesis
          apply (subst react_loop.simps)
          apply (simp add: create_def)
          apply (rule order_trans [OF ih])
          apply simp
          done
      qed
    qed
  qed
qed

lemma react_loop_returns:
  assumes "\<forall>s q. \<exists>c. gen s q = Inr c"
  shows "\<exists>rs' tok' sent'. react_loop rnd gen m it cur rs tok sent = (Inr (rs', tok'), sent')"
proof (induction "m - it" arbitrary: it cur rs tok sent)
  case 0
  then show ?case by (subst react_loop.simps) simp
next
  case (Suc n)
  then have lt: "it < m" and n: "n = m - (it + 1)" by simp_all
  have ih: "\<exists>rs' tok' sent'. react_loop rnd gen m (Suc it) C R T S = (Inr (rs', tok'), sent')" for C R T S
    using Suc.hyps(1) [OF n, of C R T S] by simp
  obtain tc where t: "gen sent (thought_request cur rs) = Inr tc" using assms by blast
  obtain ac where a: "gen (sent @ [thought_request cur rs]) (action_request (or_else (content tc) []) cur) = Inr ac"
    using assms by blast
  show ?case
  proof (cases "includes_str (toUpperCase (or_else (content ac) [])) ''ANSWER''")
    case True
    with lt t a show ?thesis by (subst react_loop.simps) (simp add: create_def)
  next
    case False
    with lt t a show ?thesis
      by (subst react_loop.simps) (simp add: create_def ih)
  qed
qed

text \<open>
  Claim C8.  \<open>reactMethodology\<close> issues at most ten requests, two per iteration, so at
  most five iterations run, also when a request fails.  A result that is returned
  records between one and five steps, two requests each; no step before the last has an
  action containing \<open>ANSWER\<close> in upper case; if fewer than five steps were recorded, the
  action of the last one contains it; and the response is the observation of the last
  step.  When no request fails, a result is returned.
\<close>

theorem react_at_most_five_iterations:
  "length (snd (reactMethodology rnd gen sent request)) \<le> length sent + 2 * 5
   \<and> (\<forall>r sent'. reactMethodology rnd gen sent request = (Inr r, sent') \<longrightarrow>
         reasoning r \<noteq> [] \<and> length (reasoning r) \<le> 5
         \<and> length sent' = length sent + 2 * length (reasoning r)
         \<and> list_all (\<lambda>s. \<not> is_answer_step s) (butlast (reasoning r))
         \<and> (length (reasoning r) < 5 \<longrightarrow> is_answer_step (last (reasoning r)))
         \<and> observation (last (reasoning r)) = Some (response r))
   \<and> ((\<forall>s q. \<exists>c. gen s q = Inr c) \<longrightarrow>
         (\<exists>r sent'. reactMethodology rnd gen sent request = (Inr r, sent')))"
proof (intro conjI allI impI)
  have "length (snd (react_loop rnd gen 5 0 (request_input request) [] 0 sent)) \<le> length sent + 2 * (5 - 0)"
    by (rule react_loop_requests) simp
  then show "length (snd (reactMethodology rnd gen sent request)) \<le> length sent + 2 * 5"
    by (auto simp: reactMethodology_def split: prod.splits sum.splits)
next
  fix r sent' assume run: "reactMethodology rnd gen sent request = (Inr r, sent')"
  then obtain rs tok where loop: "react_loop rnd gen 5 0 (request_input request) [] 0 sent = (Inr (rs, tok), sent')"
    and r: "reasoning r = rs" "response r = or_else (last_observation rs) ''Could not determine answer''"
    by (auto simp: reactMethodology_def split: prod.splits sum.splits)
  have "react_inv 0 []" by (simp add: react_inv_def)
  from react_loop_result [OF loop this]
  have res: "length rs \<le> 5" "length sent' = length sent + 2 * length rs"
    "list_all (\<lambda>s. \<not> is_answer_step s) (butlast rs)"
    "length rs < 5 \<longrightarrow> rs \<noteq> [] \<and> is_answer_step (last rs)"
    "list_all (\<lambda>s. \<exists>ob. observation s = Some ob \<and> ob \<noteq> []) rs"
    by simp_all
  from res(4) have ne: "rs \<noteq> []" by (cases "length rs < 5") auto
  from last_in_set [OF ne] res(5) obtain ob where ob: "observation (last rs) = Some ob" "ob \<noteq> []"
    by (auto simp: list_all_iff)
  with ne r have "observation (last rs) = Some (response r)"
    by (simp add: last_observation_def)
  with res ne r
  show "reasoning r \<noteq> []" "length (reasoning r) \<le> 5"
    "length sent' = length sent + 2 * length (reasoning r)"
    "list_all (\<lambda>s. \<not> is_answer_step s) (butlast (reasoning r))"
    "observation (last (reasoning r)) = Some (response r)"
    by simp_all
  { assume "length (reasoning r) < 5"
    with res(4) r show "is_answer_step (last (reasoning r))" by simp }
next
  assume "\<forall>s q. \<exists>c. gen s q = Inr c"
  from react_loop_returns [OF this]
  obtain rs' tok' sent' where "react_loop rnd gen 5 0 (request_input request) [] 0 sent = (Inr (rs', tok'), sent')"
    by blast
  then show "\<exists>r sent'. reactMethodology rnd gen sent request = (Inr r, sent')"
    by (simp add: reactMethodology_def)
qed

theorem react_at_most_five_iterations_witness:
  "\<exists>r sent'. reactMethodology exact gen_answer_second [] question = (Inr r, sent')
      \<and> length (reasoning r) = 2 \<and> length sent' = 4
      \<and> map is_answer_step (reasoning r) = [False, True]
      \<and> response r = ''Final answer based on previous reasoning steps.''"
proof -
  have ev: "(case reactMethodology exact gen_answer_second [] question of
          (Inr r, sent') \<Rightarrow> map is_answer_step (reasoning r) = [False, True]
             \<and> observation (last (reasoning r)) = Some ''Final answer based on previous reasoning steps.''
        | (Inl e, sent') \<Rightarrow> False)"
    by code_simp
  have total: "\<forall>s q. \<exists>c. gen_answer_second s q = Inr c"
    by (simp add: gen_answer_second_def reply_def)
  with react_at_most_five_iterations [of exact gen_answer_second "[]" question]
  obtain r sent' where run: "reactMethodology exact gen_answer_second [] question = (Inr r, sent')"
    and "length sent' = length ([] :: chat_request list) + 2 * length (reasoning r)"
    and "observation (last (reasoning r)) = Some (response r)"
    by blast
  moreover from run ev have "map is_answer_step (reasoning r) = [False, True]"
    "observation (last (reasoning r)) = Some ''Final answer based on previous reasoning steps.''"
    by simp_all
  ultimately show ?thesis
    by (intro exI [of _ r] exI [of _ sent']) (auto dest: arg_cong [where f = length])
qed

section \<open>Hierarchical collaboration: the fallback parse\<close>

lemma subtask_lines_no_marker:
  "list_all (\<lambda>line. \<not> includes_str (toUpperCase line) ''SUBTASK'') lines \<Longrightarrow> subtask_lines lines = []"
  by (induction lines) simp_all

lemma parseSubtasks_fallback:
  "list_all (\<lambda>line. \<not> includes_str (toUpperCase line) ''SUBTASK'') (split b nl) \<Longrightarrow>
   parseSubtasks b = take 3 (filter (\<lambda>p. 50 < length (trim p)) (split b (nl @ nl)))"
  by (simp add: parseSubtasks_def subtask_lines_no_marker)

lemma worker_branches_two:
  "\<exists>ws. worker_branches gen t 0 [p1, p2] [w0, w1] sent =
     (ws, sent @ [agent_request w0 (buildWorkerPrompt w0 p1 t), agent_request w1 (buildWorkerPrompt w1 p2 t)])
     \<and> map step_number ws = [2, 3] \<and> map step_agent ws = [w0, w1] \<and> map step_input ws = [p1, p2]"
  by (auto simp: executeAgentTask_def create_def split: sum.splits)

text \<open>
  Claim C4, as the code has it.  When no line of the leader's reply contains \<open>SUBTASK\<close>
  in upper case, \<open>parseSubtasks\<close> returns the first three of the paragraphs whose
  trimmed length exceeds 50.  When exactly two paragraphs are that long, and the
  collaboration has a leader and two workers, the requests after the leader's are the
  first paragraph for the first worker, the second paragraph for the second worker and
  the synthesis request, and a returned result records the two paragraphs as the inputs
  of steps 2 and 3.  A paragraph of exactly 50 characters is not a subtask:
  \<open>hierarchical_fallback_counterexample\<close>, where no worker receives a request.
\<close>

theorem hierarchical_fallback_dispatch:
  assumes "list_all (\<lambda>line. \<not> includes_str (toUpperCase line) ''SUBTASK'') (split breakdown nl)"
    and "filter (\<lambda>p. 50 < length (trim p)) (split breakdown (nl @ nl)) = [p1, p2]"
    and "executeAgentTask gen sent leader (buildLeaderPrompt leader (task request) [w0, w1]) = (Inr breakdown, sent1)"
  shows "parseSubtasks breakdown = [p1, p2]
     \<and> (\<exists>workerResults.
           map step_number workerResults = [2, 3]
         \<and> map step_agent workerResults = [w0, w1]
         \<and> map step_input workerResults = [p1, p2]
         \<and> snd (hierarchicalCollaboration gen sent request [leader, w0, w1])
             = sent1 @ [agent_request w0 (buildWorkerPrompt w0 p1 (task request)),
                        agent_request w1 (buildWorkerPrompt w1 p2 (task request)),
                        hierarchical_synthesis_request (task request) breakdown workerResults]
         \<and> (\<forall>r. fst (hierarchicalCollaboration gen sent request [leader, w0, w1]) = Inr r \<longrightarrow>
                length (steps r) = 4 \<and> take 2 (drop 1 (steps r)) = workerResults))
     \<and> (\<forall>b. list_all (\<lambda>line. \<not> includes_str (toUpperCase line) ''SUBTASK'') (split b nl) \<longrightarrow>
            parseSubtasks b = take 3 (filter (\<lambda>p. 50 < length (trim p)) (split b (nl @ nl))))"
proof (intro conjI)
  show p: "parseSubtasks breakdown = [p1, p2]"
    using assms(1,2) by (simp add: parseSubtasks_fallback)
  show "\<forall>b. list_all (\<lambda>line. \<not> includes_str (toUpperCase line) ''SUBTASK'') (split b nl) \<longrightarrow>
            parseSubtasks b = take 3 (filter (\<lambda>p. 50 < length (trim p)) (split b (nl @ nl)))"
    by (simp add: parseSubtasks_fallback)
  obtain ws where w: "worker_branches gen (task request) 0 [p1, p2] [w0, w1] sent1
       = (ws, sent1 @ [agent_request w0 (buildWorkerPrompt w0 p1 (task request)),
                        agent_request w1 (buildWorkerPrompt w1 p2 (task request))])"
    and ws: "map step_number ws = [2, 3]" "map step_agent ws = [w0, w1]" "map step_input ws = [p1, p2]"
    using worker_branches_two [of gen "task request" p1 p2 w0 w1 sent1] by auto
  from ws have len: "length ws = 2" by (auto dest: arg_cong [where f = length])
  show "\<exists>workerResults.
           map step_number workerResults = [2, 3]
         \<and> map step_agent workerResults = [w0, w1]
         \<and> map step_input workerResults = [p1, p2]
         \<and> snd (hierarchicalCollaboration gen sent request [leader, w0, w1])
             = sent1 @ [agent_request w0 (buildWorkerPrompt w0 p1 (task request)),
                        agent_request w1 (buildWorkerPrompt w1 p2 (task request)),
                        hierarchical_synthesis_request (task request) breakdown workerResults]
         \<and> (\<forall>r. fst (hierarchicalCollaboration gen sent request [leader, w0, w1]) = Inr r \<longrightarrow>
                length (steps r) = 4 \<and> take 2 (drop 1 (steps r)) = workerResults)"
    using assms(3) p w ws len
    by (intro exI [of _ ws])
       (auto simp: hierarchicalCollaboration_def synthesizeHierarchicalResults_def create_def
          split: sum.splits)
qed

theorem hierarchical_fallback_dispatch_witness:
  "list_all (\<lambda>line. \<not> includes_str (toUpperCase line) ''SUBTASK'') (split long_breakdown nl)
   \<and> filter (\<lambda>p. 50 < length (trim p)) (split long_breakdown (nl @ nl))
       = [''Collect the sales figures of the last quarter by region.'',
          ''Draft the two page summary for the steering committee.'']
   \<and> parseSubtasks long_breakdown
       = [''Collect the sales figures of the last quarter by region.'',
          ''Draft the two page summary for the steering committee.'']
   \<and> map req_user (take 2 (drop 1 (snd (hierarchicalCollaboration (gen_reply long_breakdown) [] review_request
                    [analyst, creative, technical]))))
       = [buildWorkerPrompt creative ''Collect the sales figures of the last quarter by region.'' (task review_request),
          buildWorkerPrompt technical ''Draft the two page summary for the steering committee.'' (task review_request)]
   \<and> length (snd (hierarchicalCollaboration (gen_reply long_breakdown) [] review_request
                    [analyst, creative, technical])) = 4"
proof -
  let ?p1 = "''Collect the sales figures of the last quarter by region.''"
  let ?p2 = "''Draft the two page summary for the steering committee.''"
  let ?lead = "agent_request analyst (buildLeaderPrompt analyst (task review_request) [creative, technical])"
  have a1: "list_all (\<lambda>line. \<not> includes_str (toUpperCase line) ''SUBTASK'') (split long_breakdown nl)"
    by code_simp
  have a2: "filter (\<lambda>p. 50 < length (trim p)) (split long_breakdown (nl @ nl)) = [?p1, ?p2]"
    by code_simp
  have a3: "executeAgentTask (gen_reply long_breakdown) [] analyst
              (buildLeaderPrompt analyst (task review_request) [creative, technical])
            = (Inr long_breakdown, [?lead])"
    by (cases long_breakdown) (simp_all add: executeAgentTask_def create_def gen_reply_def reply_def)
  from hierarchical_fallback_dispatch [OF a1 a2 a3]
  obtain ws where "parseSubtasks long_breakdown = [?p1, ?p2]"
    and "snd (hierarchicalCollaboration (gen_reply long_breakdown) [] review_request [analyst, creative, technical])
         = [?lead] @ [agent_request creative (buildWorkerPrompt creative ?p1 (task review_request)),
                      agent_request technical (buildWorkerPrompt technical ?p2 (task review_request)),
                      hierarchical_synthesis_request (task review_request) long_breakdown ws]"
    by blast
  with a1 a2 show ?thesis by (simp add: agent_request_def)
qed

theorem hierarchical_fallback_counterexample:
  "list_all (\<lambda>line. \<not> includes_str (toUpperCase line) ''SUBTASK'') (split short_breakdown nl)
   \<and> map length (split short_breakdown (nl @ nl)) = [50, 50]
   \<and> parseSubtasks short_breakdown = []
   \<and> fst (executeAgentTask (gen_reply short_breakdown) [] analyst
            (buildLeaderPrompt analyst (task review_request) [creative, technical])) = Inr short_breakdown
   \<and> length (snd (hierarchicalCollaboration (gen_reply short_breakdown) [] review_request
                    [analyst, creative, technical])) = 2"
  by code_simp


end
